theory Spec2Isabelle
  imports Main
begin

section \<open>The global registry of \<^verbatim>\<open>api/src/internal/global-utils.ts\<close>\<close>

text \<open>
  The module keeps, on the process-wide object \<^verbatim>\<open>_globalThis\<close>, one table per symbol key.
  A table is a JavaScript object of type \<^verbatim>\<open>OTelGlobalAPI\<close>: a \<^verbatim>\<open>version\<close> string and five
  optional properties, one per API. The three exported functions are \<^verbatim>\<open>registerGlobal\<close>,
  \<^verbatim>\<open>getGlobal\<close> and \<^verbatim>\<open>unregisterGlobal\<close>.

  Modelling decisions:
  \<^item> an object is the map of its properties; a property that is missing and a property
    that holds \<^verbatim>\<open>undefined\<close> read the same in this module, both are \<open>None\<close>;
  \<^item> \<^verbatim>\<open>Symbol.for s\<close> returns the same symbol for the same string in the whole process,
    so a symbol is the string it was made from;
  \<^item> every key of \<^verbatim>\<open>_global\<close> holds a table object of its own (tables are created by the
    object literals of \<^verbatim>\<open>registerGlobal\<close>, one per key), so the shared object is a map
    from symbols to tables;
  \<^item> tables are ordinary extensible objects, and the logger's \<^verbatim>\<open>debug\<close> and \<^verbatim>\<open>error\<close>
    return normally (the second embedding of \<^verbatim>\<open>registerGlobal\<close> below drops both assumptions
    and says when the call ends in an exception); each call of the logger, of the clock and
    of \<^verbatim>\<open>isCompatible\<close> is recorded, in order, in the list \<open>effects\<close>;
  \<^item> \<^verbatim>\<open>VERSION\<close> and \<^verbatim>\<open>isCompatible\<close> are imported from files that are not part of the
    module; they are parameters of the model;
  \<^item> the state is that of one loaded copy of the module, together with the shared object
    as that copy finds it: what other copies have left there is part of the initial state.
\<close>

subsection \<open>Data\<close>

text \<open>The five optional properties of \<^verbatim>\<open>OTelGlobalAPI\<close>: the capabilities.\<close>

datatype capability = Diag | Trace | Context | Metrics | Propagation

text \<open>\<^verbatim>\<open>keyof OTelGlobalAPI\<close>: the type of the parameter \<^verbatim>\<open>type\<close>. It has the five
  capabilities and, as the TypeScript type is written, \<^verbatim>\<open>'version'\<close> as well.\<close>

datatype key = version | Cap capability

text \<open>The values a property holds: a string (the version) or a reference to an API
  object (a logger, a tracer provider, ...), opaque to this module.\<close>

datatype 'i jsval = Str string | Obj 'i

type_synonym symbol = string

type_synonym 'i OTelGlobalAPI = "key \<Rightarrow> 'i jsval option"

type_synonym 'i OTelGlobal = "symbol \<Rightarrow> 'i OTelGlobalAPI option"

text \<open>What the module does to its collaborators: reading the clock (\<^verbatim>\<open>new Date()\<close>, with the
  reading in milliseconds since the epoch), calling \<^verbatim>\<open>diag.debug\<close> and \<^verbatim>\<open>diag.error\<close> of the
  logger it is passed, calling \<^verbatim>\<open>isCompatible\<close>. For \<open>diag_error\<close> the string is the message of
  the \<^verbatim>\<open>Error\<close> object whose stack (or, without one, message) the logger receives.\<close>

datatype 'i effect =
    new_Date nat
  | diag_debug string
  | diag_error string
  | isCompatible_call "'i jsval"

text \<open>The module's own bindings (\<^verbatim>\<open>instanceId\<close>, \<^verbatim>\<open>SCOPED_OPENTELEMETRY_API_KEY\<close>), the shared
  object \<^verbatim>\<open>_global\<close> and the effects so far.\<close>

record 'i module =
  instanceId :: nat
  SCOPED_OPENTELEMETRY_API_KEY :: "symbol option"
  global :: "'i OTelGlobal"
  effects :: "'i effect list"

subsection \<open>JavaScript primitives used by the module\<close>

text \<open>Truthiness: the empty string and \<^verbatim>\<open>undefined\<close> are falsy, an object is truthy.\<close>

fun truthy :: "'i jsval option \<Rightarrow> bool" where
  "truthy None = False"
| "truthy (Some (Str s)) = (s \<noteq> [])"
| "truthy (Some (Obj _)) = True"

text \<open>A value inside a template literal: a string is itself, \<^verbatim>\<open>undefined\<close> is
  \<^verbatim>\<open>"undefined"\<close>, a plain object is \<^verbatim>\<open>"[object Object]"\<close>.\<close>

fun to_string :: "'i jsval option \<Rightarrow> string" where
  "to_string None = ''undefined''"
| "to_string (Some (Str s)) = s"
| "to_string (Some (Obj _)) = ''[object Object]''"

fun key_name :: "key \<Rightarrow> string" where
  "key_name version = ''version''"
| "key_name (Cap Diag) = ''diag''"
| "key_name (Cap Trace) = ''trace''"
| "key_name (Cap Context) = ''context''"
| "key_name (Cap Metrics) = ''metrics''"
| "key_name (Cap Propagation) = ''propagation''"

text \<open>A number inside a template literal: its decimal digits.\<close>

fun number_to_string :: "nat \<Rightarrow> string" where
  "number_to_string n =
     (if n < 10 then [''0123456789'' ! n]
      else number_to_string (n div 10) @ [''0123456789'' ! (n mod 10)])"

declare number_to_string.simps [simp del]

text \<open>\<^verbatim>\<open>Date.prototype.getMilliseconds\<close>: the milliseconds within the second, \<open>0\<close> to \<open>999\<close>.\<close>

definition getMilliseconds :: "nat \<Rightarrow> nat" where
  "getMilliseconds now = now mod 1000"

subsection \<open>Module constants\<close>

text \<open>\<^verbatim>\<open>VERSION.split('.')[0]\<close>: the text before the first dot.\<close>

definition major :: "string \<Rightarrow> string" where
  "major VERSION = takeWhile (\<lambda>c. c \<noteq> CHR ''.'') VERSION"

definition GLOBAL_OPENTELEMETRY_API_KEY :: "string \<Rightarrow> symbol" where
  "GLOBAL_OPENTELEMETRY_API_KEY VERSION = ''opentelemetry.js.api.'' @ major VERSION"

text \<open>The symbol assigned to \<^verbatim>\<open>SCOPED_OPENTELEMETRY_API_KEY\<close> at lines 42-44.\<close>

definition scoped_symbol :: "string \<Rightarrow> nat \<Rightarrow> symbol" where
  "scoped_symbol VERSION n =
     ''opentelemetry.js.api.'' @ major VERSION @ ''.instance.'' @ number_to_string n"

text \<open>The object literal \<^verbatim>\<open>{ version: VERSION }\<close>.\<close>

definition new_table :: "string \<Rightarrow> 'i OTelGlobalAPI" where
  "new_table VERSION = (\<lambda>k. None)(version \<mapsto> Str VERSION)"

text \<open>Evaluating the module's top level (lines 26-33) when the clock reads \<open>now\<close> and the
  shared object is \<open>g\<close>: \<^verbatim>\<open>instanceId\<close> is computed there, \<^verbatim>\<open>SCOPED_OPENTELEMETRY_API_KEY\<close>
  is declared and not assigned.\<close>

definition module_load :: "nat \<Rightarrow> 'i OTelGlobal \<Rightarrow> 'i module" where
  "module_load now g =
     \<lparr> instanceId = getMilliseconds now,
       SCOPED_OPENTELEMETRY_API_KEY = None,
       global = g,
       effects = [new_Date now] \<rparr>"

subsection \<open>The messages passed to the logger\<close>

text \<open>The template literals of lines 57, 70, 79, 87 and 105.\<close>

definition scoped_registration_message :: "nat \<Rightarrow> key \<Rightarrow> string \<Rightarrow> string" where
  "scoped_registration_message n type VERSION =
     ''@opentelemetry/api: Registered scoped instance '' @ number_to_string n
       @ '' for '' @ key_name type @ '' v'' @ VERSION @ ''.''"

definition duplicate_registration_message :: "key \<Rightarrow> string" where
  "duplicate_registration_message type =
     ''@opentelemetry/api: Attempted duplicate registration of API: '' @ key_name type"

definition version_mismatch_message :: "'i jsval option \<Rightarrow> key \<Rightarrow> string \<Rightarrow> string" where
  "version_mismatch_message v type VERSION =
     ''@opentelemetry/api: Registration of version v'' @ to_string v @ '' for ''
       @ key_name type @ '' does not match previously registered API v'' @ VERSION"

definition registration_message :: "key \<Rightarrow> string \<Rightarrow> string" where
  "registration_message type VERSION =
     ''@opentelemetry/api: Registered a global for '' @ key_name type @ '' v'' @ VERSION @ ''.''"

definition unregistration_message :: "key \<Rightarrow> string \<Rightarrow> string" where
  "unregistration_message type VERSION =
     ''@opentelemetry/api: Unregistering a global for '' @ key_name type @ '' v'' @ VERSION @ ''.''"

subsection \<open>The exported functions\<close>

text \<open>A call of a collaborator is appended to the effects.\<close>

definition emit :: "'i effect \<Rightarrow> 'i module \<Rightarrow> 'i module" where
  "emit e st = st\<lparr> effects := effects st @ [e] \<rparr>"

text \<open>\<^verbatim>\<open>registerGlobal\<close>, lines 41-45: the scoped key is assigned at the first call with
  \<^verbatim>\<open>allowOverride\<close>.\<close>

definition assign_scoped_key :: "string \<Rightarrow> bool \<Rightarrow> 'i module \<Rightarrow> 'i module" where
  "assign_scoped_key VERSION allowOverride st =
     (if allowOverride \<and> SCOPED_OPENTELEMETRY_API_KEY st = None
      then st\<lparr> SCOPED_OPENTELEMETRY_API_KEY := Some (scoped_symbol VERSION (instanceId st)) \<rparr>
      else st)"

text \<open>\<^verbatim>\<open>registerGlobal\<close>, lines 47-59: the write to the scoped table. A symbol is truthy, so
  the test of \<^verbatim>\<open>SCOPED_OPENTELEMETRY_API_KEY\<close> is whether it has been assigned.\<close>

definition register_scoped ::
  "string \<Rightarrow> key \<Rightarrow> 'i jsval option \<Rightarrow> bool \<Rightarrow> 'i module \<Rightarrow> 'i module" where
  "register_scoped VERSION type instance allowOverride st =
     (case SCOPED_OPENTELEMETRY_API_KEY st of
        Some k \<Rightarrow>
          if allowOverride then
            let scopedApi = (case global st k of None \<Rightarrow> new_table VERSION | Some t \<Rightarrow> t)
            in emit (diag_debug (scoped_registration_message (instanceId st) type VERSION))
                 (st\<lparr> global := (global st)(k \<mapsto> scopedApi(type := instance)) \<rparr>)
          else st
      | None \<Rightarrow> st)"

text \<open>\<^verbatim>\<open>registerGlobal\<close>, lines 61-91: the primary table is fetched or created and stored
  back, then the two guards, then the write.\<close>

definition register_primary ::
  "string \<Rightarrow> key \<Rightarrow> 'i jsval option \<Rightarrow> bool \<Rightarrow> 'i module \<Rightarrow> bool \<times> 'i module" where
  "register_primary VERSION type instance allowOverride st =
     (let api = (case global st (GLOBAL_OPENTELEMETRY_API_KEY VERSION) of
                   None \<Rightarrow> new_table VERSION | Some t \<Rightarrow> t);
          st1 = st\<lparr> global := (global st)(GLOBAL_OPENTELEMETRY_API_KEY VERSION \<mapsto> api) \<rparr>
      in if \<not> allowOverride \<and> truthy (api type) then
           (False, emit (diag_error (duplicate_registration_message type)) st1)
         else if api version \<noteq> Some (Str VERSION) then
           (False, emit (diag_error (version_mismatch_message (api version) type VERSION)) st1)
         else
           (True, emit (diag_debug (registration_message type VERSION))
                    (st1\<lparr> global := (global st1)(GLOBAL_OPENTELEMETRY_API_KEY VERSION \<mapsto>
                                         api(type := instance)) \<rparr>)))"

text \<open>The whole of \<^verbatim>\<open>registerGlobal\<close>. The parameter \<^verbatim>\<open>diag\<close> is the logger whose calls are
  recorded; \<^verbatim>\<open>allowOverride\<close> is passed explicitly (the source's default is \<^verbatim>\<open>true\<close>). The result
  is the boolean returned and the state left.\<close>

definition registerGlobal ::
  "string \<Rightarrow> key \<Rightarrow> 'i jsval option \<Rightarrow> bool \<Rightarrow> 'i module \<Rightarrow> bool \<times> 'i module" where
  "registerGlobal VERSION type instance allowOverride st =
     register_primary VERSION type instance allowOverride
       (register_scoped VERSION type instance allowOverride
          (assign_scoped_key VERSION allowOverride st))"

text \<open>\<^verbatim>\<open>getGlobal\<close>, lines 93-101. \<^verbatim>\<open>||\<close> evaluates its right operand, the call of
  \<^verbatim>\<open>isCompatible\<close>, only when \<^verbatim>\<open>globalVersion\<close> is truthy.\<close>

definition getGlobal ::
  "('i jsval \<Rightarrow> bool) \<Rightarrow> string \<Rightarrow> key \<Rightarrow> 'i module \<Rightarrow> 'i jsval option \<times> 'i module" where
  "getGlobal isCompatible VERSION type st =
     (let globalVersion = (case global st (GLOBAL_OPENTELEMETRY_API_KEY VERSION) of
                             None \<Rightarrow> None | Some api \<Rightarrow> api version)
      in case globalVersion of
           None \<Rightarrow> (None, st)
         | Some v \<Rightarrow>
             if \<not> truthy (Some v) then (None, st)
             else
               let st1 = emit (isCompatible_call v) st
               in if \<not> isCompatible v then (None, st1)
                  else (case global st1 (GLOBAL_OPENTELEMETRY_API_KEY VERSION) of
                          None \<Rightarrow> None | Some api \<Rightarrow> api type, st1))"

text \<open>\<^verbatim>\<open>unregisterGlobal\<close>, lines 103-112.\<close>

definition unregisterGlobal :: "string \<Rightarrow> key \<Rightarrow> 'i module \<Rightarrow> 'i module" where
  "unregisterGlobal VERSION type st =
     (let st1 = emit (diag_debug (unregistration_message type VERSION)) st
      in case global st1 (GLOBAL_OPENTELEMETRY_API_KEY VERSION) of
           None \<Rightarrow> st1
         | Some api \<Rightarrow>
             st1\<lparr> global := (global st1)(GLOBAL_OPENTELEMETRY_API_KEY VERSION \<mapsto>
                                api(type := None)) \<rparr>)"

subsection \<open>registerGlobal with the exceptions that pass through it\<close>








subsection \<open>Sequences of calls\<close>

text \<open>A call of one of the three exported functions on a capability, and the state a
  module is in after a list of calls.\<close>

datatype 'i call =
    Register capability "'i jsval option" bool
  | Get capability
  | Unregister capability

fun perform :: "('i jsval \<Rightarrow> bool) \<Rightarrow> string \<Rightarrow> 'i call \<Rightarrow> 'i module \<Rightarrow> 'i module" where
  "perform isCompatible VERSION (Register c instance allowOverride) st =
     snd (registerGlobal VERSION (Cap c) instance allowOverride st)"
| "perform isCompatible VERSION (Get c) st = snd (getGlobal isCompatible VERSION (Cap c) st)"
| "perform isCompatible VERSION (Unregister c) st = unregisterGlobal VERSION (Cap c) st"

fun run :: "('i jsval \<Rightarrow> bool) \<Rightarrow> string \<Rightarrow> 'i call list \<Rightarrow> 'i module \<Rightarrow> 'i module" where
  "run isCompatible VERSION [] st = st"
| "run isCompatible VERSION (x # xs) st =
     run isCompatible VERSION xs (perform isCompatible VERSION x st)"

fun is_override :: "'i call \<Rightarrow> bool" where
  "is_override (Register c instance allowOverride) = allowOverride"
| "is_override (Get c) = False"
| "is_override (Unregister c) = False"

fun is_clock_reading :: "'i effect \<Rightarrow> bool" where
  "is_clock_reading (new_Date t) = True"
| "is_clock_reading (diag_debug m) = False"
| "is_clock_reading (diag_error m) = False"
| "is_clock_reading (isCompatible_call v) = False"

subsection \<open>Vocabulary of the properties\<close>

text \<open>The key of the scoped table: the symbol already assigned, or the one the next call
  with \<^verbatim>\<open>allowOverride\<close> assigns.\<close>

definition scoped_key :: "string \<Rightarrow> 'i module \<Rightarrow> symbol" where
  "scoped_key VERSION st =
     (case SCOPED_OPENTELEMETRY_API_KEY st of
        None \<Rightarrow> scoped_symbol VERSION (instanceId st)
      | Some k \<Rightarrow> k)"

text \<open>The states a module can be in: \<^verbatim>\<open>SCOPED_OPENTELEMETRY_API_KEY\<close> is unassigned or holds the
  symbol of lines 42-44.\<close>

definition module_ok :: "string \<Rightarrow> 'i module \<Rightarrow> bool" where
  "module_ok VERSION st =
     (SCOPED_OPENTELEMETRY_API_KEY st = None
      \<or> SCOPED_OPENTELEMETRY_API_KEY st = Some (scoped_symbol VERSION (instanceId st)))"

text \<open>The logger calls of lines 47-59.\<close>

definition scoped_effects :: "string \<Rightarrow> key \<Rightarrow> bool \<Rightarrow> 'i module \<Rightarrow> 'i effect list" where
  "scoped_effects VERSION type allowOverride st =
     (if allowOverride
      then [diag_debug (scoped_registration_message (instanceId st) type VERSION)]
      else [])"

text \<open>No prior registration of a capability: its slot of the primary table is absent and
  the table, if present, is stamped with the version of this build.\<close>

definition no_prior_registration :: "string \<Rightarrow> capability \<Rightarrow> 'i module \<Rightarrow> bool" where
  "no_prior_registration VERSION c st =
     (case global st (GLOBAL_OPENTELEMETRY_API_KEY VERSION) of
        None \<Rightarrow> True
      | Some api \<Rightarrow> api version = Some (Str VERSION) \<and> api (Cap c) = None)"

text \<open>The version field of a table that may be absent.\<close>

definition version_of :: "'i OTelGlobalAPI option \<Rightarrow> 'i jsval option option" where
  "version_of t = map_option (\<lambda>api. api version) t"

text \<open>Lines 41-59 as one step.\<close>

definition scoped_part ::
  "string \<Rightarrow> key \<Rightarrow> 'i jsval option \<Rightarrow> bool \<Rightarrow> 'i module \<Rightarrow> 'i module" where
  "scoped_part VERSION type instance allowOverride st =
     register_scoped VERSION type instance allowOverride
       (assign_scoped_key VERSION allowOverride st)"

subsection \<open>Keys\<close>

lemma scoped_symbol_neq_global [simp]:
  "scoped_symbol VERSION n \<noteq> GLOBAL_OPENTELEMETRY_API_KEY VERSION"
  "GLOBAL_OPENTELEMETRY_API_KEY VERSION \<noteq> scoped_symbol VERSION n"
  by (simp_all add: scoped_symbol_def GLOBAL_OPENTELEMETRY_API_KEY_def)

lemma scoped_key_neq_global:
  "module_ok VERSION st \<Longrightarrow> scoped_key VERSION st \<noteq> GLOBAL_OPENTELEMETRY_API_KEY VERSION"
  by (auto simp: module_ok_def scoped_key_def)

subsection \<open>The scoped part of registerGlobal\<close>

lemma registerGlobal_scoped_part:
  "registerGlobal VERSION ty v ov st = register_primary VERSION ty v ov (scoped_part VERSION ty v ov st)"
  by (simp add: registerGlobal_def scoped_part_def)

lemma scoped_part_False [simp]: "scoped_part VERSION ty v False st = st"
  by (simp add: scoped_part_def register_scoped_def assign_scoped_key_def split: option.split)

lemma scoped_part_instanceId [simp]:
  "instanceId (scoped_part VERSION ty v ov st) = instanceId st"
  by (simp add: scoped_part_def register_scoped_def assign_scoped_key_def emit_def Let_def
        split: option.split)

lemma scoped_part_effects [simp]:
  "effects (scoped_part VERSION ty v ov st) = effects st @ scoped_effects VERSION ty ov st"
  by (simp add: scoped_part_def register_scoped_def assign_scoped_key_def emit_def Let_def
        scoped_effects_def split: option.split)

lemma scoped_part_key [simp]:
  "SCOPED_OPENTELEMETRY_API_KEY (scoped_part VERSION ty v ov st) =
     (if ov then Some (scoped_key VERSION st) else SCOPED_OPENTELEMETRY_API_KEY st)"
  by (simp add: scoped_part_def register_scoped_def assign_scoped_key_def emit_def Let_def
        scoped_key_def split: option.split)

lemma scoped_part_global:
  "global (scoped_part VERSION ty v ov st) =
     (if ov
      then (global st)(scoped_key VERSION st \<mapsto>
             (case global st (scoped_key VERSION st) of
                None \<Rightarrow> new_table VERSION | Some t \<Rightarrow> t)(ty := v))
      else global st)"
  by (simp add: scoped_part_def register_scoped_def assign_scoped_key_def emit_def Let_def
        scoped_key_def split: option.split)

subsection \<open>The primary part of registerGlobal\<close>

lemma register_primary_instanceId [simp]:
  "instanceId (snd (register_primary VERSION ty v ov st)) = instanceId st"
  by (simp add: register_primary_def emit_def Let_def)

lemma register_primary_key [simp]:
  "SCOPED_OPENTELEMETRY_API_KEY (snd (register_primary VERSION ty v ov st)) =
     SCOPED_OPENTELEMETRY_API_KEY st"
  by (simp add: register_primary_def emit_def Let_def)

lemma register_primary_other [simp]:
  "k \<noteq> GLOBAL_OPENTELEMETRY_API_KEY VERSION \<Longrightarrow>
     global (snd (register_primary VERSION ty v ov st)) k = global st k"
  by (simp add: register_primary_def emit_def Let_def)

lemma register_primary_rejected_duplicate:
  assumes "global st (GLOBAL_OPENTELEMETRY_API_KEY VERSION) = Some api"
    and "\<not> ov" and "truthy (api ty)"
  shows "register_primary VERSION ty v ov st =
           (False, st\<lparr> effects := effects st @ [diag_error (duplicate_registration_message ty)] \<rparr>)"
  using assms by (simp add: register_primary_def emit_def Let_def fun_upd_idem)

lemma register_primary_rejected_version:
  assumes "global st (GLOBAL_OPENTELEMETRY_API_KEY VERSION) = Some api"
    and "ov \<or> \<not> truthy (api ty)" and "api version \<noteq> Some (Str VERSION)"
  shows "register_primary VERSION ty v ov st =
           (False, st\<lparr> effects := effects st @
               [diag_error (version_mismatch_message (api version) ty VERSION)] \<rparr>)"
  using assms by (auto simp add: register_primary_def emit_def Let_def fun_upd_idem)

lemma register_primary_accepted:
  assumes "global st (GLOBAL_OPENTELEMETRY_API_KEY VERSION) = Some api"
    and "ov \<or> \<not> truthy (api ty)" and "api version = Some (Str VERSION)"
  shows "register_primary VERSION ty v ov st =
           (True, st\<lparr> global := (global st)(GLOBAL_OPENTELEMETRY_API_KEY VERSION \<mapsto> api(ty := v)),
                      effects := effects st @ [diag_debug (registration_message ty VERSION)] \<rparr>)"
  using assms by (auto simp add: register_primary_def emit_def Let_def)

lemma register_primary_fresh:
  assumes "global st (GLOBAL_OPENTELEMETRY_API_KEY VERSION) = None"
  shows "register_primary VERSION (Cap c) v ov st =
           (True, st\<lparr> global := (global st)(GLOBAL_OPENTELEMETRY_API_KEY VERSION \<mapsto>
                                     (new_table VERSION)(Cap c := v)),
                      effects := effects st @ [diag_debug (registration_message (Cap c) VERSION)] \<rparr>)"
  using assms by (auto simp add: register_primary_def emit_def Let_def new_table_def)

lemma register_primary_outcome:
  "fst (register_primary VERSION ty v ov s)
     \<and> effects (snd (register_primary VERSION ty v ov s))
          = effects s @ [diag_debug (registration_message ty VERSION)]
   \<or> \<not> fst (register_primary VERSION ty v ov s)
     \<and> (\<exists>m. effects (snd (register_primary VERSION ty v ov s)) = effects s @ [diag_error m])"
  by (simp add: register_primary_def emit_def Let_def)

subsection \<open>getGlobal and unregisterGlobal\<close>

lemma getGlobal_global [simp]: "global (snd (getGlobal isCompatible VERSION ty st)) = global st"
  by (simp add: getGlobal_def emit_def Let_def split: option.split)

lemma getGlobal_instanceId [simp]:
  "instanceId (snd (getGlobal isCompatible VERSION ty st)) = instanceId st"
  by (simp add: getGlobal_def emit_def Let_def split: option.split)

lemma getGlobal_key [simp]:
  "SCOPED_OPENTELEMETRY_API_KEY (snd (getGlobal isCompatible VERSION ty st)) =
     SCOPED_OPENTELEMETRY_API_KEY st"
  by (simp add: getGlobal_def emit_def Let_def split: option.split)

lemma getGlobal_clock [simp]:
  "filter is_clock_reading (effects (snd (getGlobal isCompatible VERSION ty st))) =
     filter is_clock_reading (effects st)"
  by (simp add: getGlobal_def emit_def Let_def split: option.split)

lemma getGlobal_fst:
  "fst (getGlobal isCompatible VERSION ty st) =
     (case global st (GLOBAL_OPENTELEMETRY_API_KEY VERSION) of
        None \<Rightarrow> None
      | Some api \<Rightarrow>
          (case api version of
             None \<Rightarrow> None
           | Some v \<Rightarrow> if truthy (Some v) \<and> isCompatible v then api ty else None))"
  by (simp add: getGlobal_def emit_def Let_def split: option.split)

lemma unregisterGlobal_effects [simp]:
  "effects (unregisterGlobal VERSION ty st) =
     effects st @ [diag_debug (unregistration_message ty VERSION)]"
  by (simp add: unregisterGlobal_def emit_def Let_def split: option.split)

lemma unregisterGlobal_key [simp]:
  "SCOPED_OPENTELEMETRY_API_KEY (unregisterGlobal VERSION ty st) = SCOPED_OPENTELEMETRY_API_KEY st"
  by (simp add: unregisterGlobal_def emit_def Let_def split: option.split)

lemma unregisterGlobal_instanceId [simp]:
  "instanceId (unregisterGlobal VERSION ty st) = instanceId st"
  by (simp add: unregisterGlobal_def emit_def Let_def split: option.split)

lemma unregisterGlobal_global:
  "global (unregisterGlobal VERSION ty st) =
     (case global st (GLOBAL_OPENTELEMETRY_API_KEY VERSION) of
        None \<Rightarrow> global st
      | Some api \<Rightarrow> (global st)(GLOBAL_OPENTELEMETRY_API_KEY VERSION \<mapsto> api(ty := None)))"
  by (simp add: unregisterGlobal_def emit_def Let_def split: option.split)

subsection \<open>Invariants of every call\<close>

lemma registerGlobal_instanceId [simp]:
  "instanceId (snd (registerGlobal VERSION ty v ov st)) = instanceId st"
  by (simp add: registerGlobal_scoped_part)

lemma registerGlobal_key [simp]:
  "SCOPED_OPENTELEMETRY_API_KEY (snd (registerGlobal VERSION ty v ov st)) =
     (if ov then Some (scoped_key VERSION st) else SCOPED_OPENTELEMETRY_API_KEY st)"
  by (simp add: registerGlobal_scoped_part)

lemma registerGlobal_clock [simp]:
  "filter is_clock_reading (effects (snd (registerGlobal VERSION ty v ov st))) =
     filter is_clock_reading (effects st)"
  using register_primary_outcome[where s = "scoped_part VERSION ty v ov st"
      and VERSION = VERSION and ty = ty and v = v and ov = ov]
  by (auto simp: registerGlobal_scoped_part scoped_effects_def)

lemma unregisterGlobal_clock [simp]:
  "filter is_clock_reading (effects (unregisterGlobal VERSION ty st)) =
     filter is_clock_reading (effects st)"
  by simp

text \<open>The version of a table that exists is not changed; a table that is created is stamped
  with VERSION.\<close>

lemma scoped_part_version:
  "version_of (global (scoped_part VERSION (Cap c) v ov st) k) =
     (if ov \<and> k = scoped_key VERSION st \<and> global st k = None
      then Some (Some (Str VERSION)) else version_of (global st k))"
  by (simp add: scoped_part_global version_of_def new_table_def split: option.split)

lemma scoped_part_None:
  "global (scoped_part VERSION ty v ov st) k = None \<longleftrightarrow>
     global st k = None \<and> \<not> (ov \<and> k = scoped_key VERSION st)"
  by (simp add: scoped_part_global)

lemma register_primary_version:
  "version_of (global (snd (register_primary VERSION (Cap c) v ov st)) k) =
     (if k = GLOBAL_OPENTELEMETRY_API_KEY VERSION \<and> global st k = None
      then Some (Some (Str VERSION)) else version_of (global st k))"
  by (simp add: register_primary_def emit_def Let_def version_of_def new_table_def
        split: option.split)

lemma registerGlobal_version:
  "version_of (global (snd (registerGlobal VERSION (Cap c) v ov st)) k) =
     (if (k = GLOBAL_OPENTELEMETRY_API_KEY VERSION \<or> ov \<and> k = scoped_key VERSION st)
          \<and> global st k = None
      then Some (Some (Str VERSION)) else version_of (global st k))"
  by (auto simp add: registerGlobal_scoped_part register_primary_version scoped_part_version
        scoped_part_None)

lemma unregisterGlobal_version:
  "version_of (global (unregisterGlobal VERSION (Cap c) st) k) = version_of (global st k)"
  by (simp add: unregisterGlobal_global version_of_def split: option.split)

lemma perform_version:
  "version_of (global (perform isCompatible VERSION x st) k) = version_of (global st k)
   \<or> global st k = None
     \<and> version_of (global (perform isCompatible VERSION x st) k) = Some (Some (Str VERSION))"
  by (cases x) (simp_all add: registerGlobal_version unregisterGlobal_version)

lemma run_version_kept:
  "global st k = Some t \<Longrightarrow>
     version_of (global (run isCompatible VERSION xs st) k) = Some (t version)"
proof (induction xs arbitrary: st t)
  case Nil
  then show ?case by (simp add: version_of_def)
next
  case (Cons x xs)
  from Cons.prems perform_version[of isCompatible VERSION x st k]
  have "version_of (global (perform isCompatible VERSION x st) k) = Some (t version)"
    by (simp add: version_of_def)
  then obtain t' where "global (perform isCompatible VERSION x st) k = Some t'"
      "t' version = t version"
    by (auto simp: version_of_def)
  with Cons.IH[of "perform isCompatible VERSION x st" t'] show ?case by simp
qed

lemma run_version_stamped:
  "global st k = None \<Longrightarrow>
     version_of (global (run isCompatible VERSION xs st) k) \<in> {None, Some (Some (Str VERSION))}"
proof (induction xs arbitrary: st)
  case Nil
  then show ?case by (simp add: version_of_def)
next
  case (Cons x xs)
  show ?case
  proof (cases "global (perform isCompatible VERSION x st) k")
    case None
    with Cons.IH[of "perform isCompatible VERSION x st"] show ?thesis by simp
  next
    case (Some t')
    with Cons.prems perform_version[of isCompatible VERSION x st k]
    have "t' version = Some (Str VERSION)" by (simp add: version_of_def)
    with run_version_kept[OF Some, of isCompatible VERSION xs] show ?thesis by simp
  qed
qed

lemma run_instanceId [simp]: "instanceId (run isCompatible VERSION xs st) = instanceId st"
proof (induction xs arbitrary: st)
  case Nil
  show ?case by simp
next
  case (Cons x xs)
  then show ?case by (cases x) simp_all
qed

lemma run_clock [simp]:
  "filter is_clock_reading (effects (run isCompatible VERSION xs st)) =
     filter is_clock_reading (effects st)"
proof (induction xs arbitrary: st)
  case Nil
  show ?case by simp
next
  case (Cons x xs)
  then show ?case by (cases x) simp_all
qed

lemma perform_key:
  "SCOPED_OPENTELEMETRY_API_KEY (perform isCompatible VERSION x st) =
     (if is_override x then Some (scoped_key VERSION st) else SCOPED_OPENTELEMETRY_API_KEY st)"
  by (cases x) simp_all

lemma scoped_key_perform [simp]:
  "scoped_key VERSION (perform isCompatible VERSION x st) = scoped_key VERSION st"
  by (cases x; cases "SCOPED_OPENTELEMETRY_API_KEY st") (simp_all add: scoped_key_def)

lemma run_key:
  "SCOPED_OPENTELEMETRY_API_KEY (run isCompatible VERSION xs st) =
     (if \<exists>x \<in> set xs. is_override x then Some (scoped_key VERSION st)
      else SCOPED_OPENTELEMETRY_API_KEY st)"
proof (induction xs arbitrary: st)
  case Nil
  show ?case by simp
next
  case (Cons x xs)
  show ?case
    by (simp add: Cons.IH perform_key)
qed

lemma version_of_None [simp]: "version_of x = None \<longleftrightarrow> x = None"
  by (simp add: version_of_def)

lemma registerGlobal_override_exists:
  "global (snd (registerGlobal VERSION (Cap c) v True st)) (scoped_key VERSION st) \<noteq> None"
proof -
  have "version_of (global (snd (registerGlobal VERSION (Cap c) v True st)) (scoped_key VERSION st))
          \<noteq> None"
    unfolding registerGlobal_version by (auto simp: version_of_def)
  then show ?thesis by simp
qed

lemma run_exists_kept:
  "global st k \<noteq> None \<Longrightarrow> global (run isCompatible VERSION xs st) k \<noteq> None"
proof -
  assume "global st k \<noteq> None"
  then obtain t where "global st k = Some t" by auto
  from run_version_kept[OF this, of isCompatible VERSION xs] show ?thesis
    by (auto simp: version_of_def)
qed

lemma run_override_exists:
  "\<exists>x \<in> set xs. is_override x \<Longrightarrow>
     global (run isCompatible VERSION xs st) (scoped_key VERSION st) \<noteq> None"
proof (induction xs arbitrary: st)
  case Nil
  then show ?case by simp
next
  case (Cons x xs)
  show ?case
  proof (cases "is_override x")
    case True
    then obtain c v where "x = Register c v True" by (cases x) auto
    then have "global (perform isCompatible VERSION x st) (scoped_key VERSION st) \<noteq> None"
      by (simp add: registerGlobal_override_exists)
    then show ?thesis by (simp add: run_exists_kept)
  next
    case False
    with Cons.prems have "\<exists>x \<in> set xs. is_override x" by simp
    from Cons.IH[OF this, of "perform isCompatible VERSION x st"] show ?thesis by simp
  qed
qed

lemma module_load_simps [simp]:
  "instanceId (module_load now g) = getMilliseconds now"
  "SCOPED_OPENTELEMETRY_API_KEY (module_load now g) = None"
  "global (module_load now g) = g"
  "effects (module_load now g) = [new_Date now]"
  "scoped_key VERSION (module_load now g) = scoped_symbol VERSION (getMilliseconds now)"
  by (simp_all add: module_load_def scoped_key_def)

lemma register_primary_True_version:
  "fst (register_primary VERSION (Cap c) v ov s) \<Longrightarrow>
     \<exists>t. global (snd (register_primary VERSION (Cap c) v ov s))
               (GLOBAL_OPENTELEMETRY_API_KEY VERSION) = Some t \<and> t version = Some (Str VERSION)"
  by (simp add: register_primary_def emit_def Let_def split: if_splits)

lemma registerGlobal_True_version:
  assumes "fst (registerGlobal VERSION (Cap c) v ov st)"
  shows "\<exists>t. global (snd (registerGlobal VERSION (Cap c) v ov st))
               (GLOBAL_OPENTELEMETRY_API_KEY VERSION) = Some t \<and> t version = Some (Str VERSION)"
  using assms unfolding registerGlobal_scoped_part by (rule register_primary_True_version)

subsection \<open>Evaluation at the version 1.4.0\<close>

lemma key_1_4_0 [simp]: "GLOBAL_OPENTELEMETRY_API_KEY ''1.4.0'' = ''opentelemetry.js.api.1''"
  by (simp add: GLOBAL_OPENTELEMETRY_API_KEY_def major_def)

lemma scoped_1_4_0_537 [simp]:
  "scoped_symbol ''1.4.0'' 537 = ''opentelemetry.js.api.1.instance.537''"
  by (simp add: scoped_symbol_def major_def number_to_string.simps)

lemma getMilliseconds_1537 [simp]: "getMilliseconds 1537 = 537"
  by (simp add: getMilliseconds_def)

text \<open>The parameter \<^verbatim>\<open>type\<close> also admits the key \<^verbatim>\<open>'version'\<close>: on that key \<^verbatim>\<open>unregisterGlobal\<close>
  deletes the version of the primary table. The properties below are about the five
  capabilities.\<close>

lemma unregisterGlobal_of_version:
  "global st (GLOBAL_OPENTELEMETRY_API_KEY VERSION) = Some api \<Longrightarrow>
     version_of (global (unregisterGlobal VERSION version st) (GLOBAL_OPENTELEMETRY_API_KEY VERSION))
       = Some None"
  by (simp add: unregisterGlobal_global version_of_def)

text \<open>Every state that a loaded module reaches is one of \<open>module_ok\<close>.\<close>

lemma module_ok_reachable:
  "module_ok VERSION (run isCompatible VERSION xs (module_load now g))"
  by (simp add: module_ok_def run_key)

subsection \<open>The two embeddings of registerGlobal agree on ordinary tables\<close>





section \<open>The claims\<close>

subsection \<open>C1: a registration with override, then one without\<close>

text \<open>
  C1 says that after \<^verbatim>\<open>registerGlobal(c, I1, diag, true)\<close> and then
  \<^verbatim>\<open>registerGlobal(c, I2, diag, false)\<close>, from a state with no prior registration,
  \<^verbatim>\<open>getGlobal(c)\<close> returns \<open>I2\<close>. A call with \<^verbatim>\<open>allowOverride\<close> writes the instance to the
  primary table too (line 85), so the second call finds the slot taken and is rejected:
  \<^verbatim>\<open>getGlobal(c)\<close> returns \<open>I1\<close>.
\<close>

theorem override_then_register_counterexample:
  "fst (getGlobal (\<lambda>v. True) ''1.4.0'' (Cap Diag)
     (snd (registerGlobal ''1.4.0'' (Cap Diag) (Some (Obj 2)) False
       (snd (registerGlobal ''1.4.0'' (Cap Diag) (Some (Obj (1::nat))) True
         (module_load 1537 Map.empty)))))) = Some (Obj 1)
   \<and> fst (getGlobal (\<lambda>v. True) ''1.4.0'' (Cap Diag)
     (snd (registerGlobal ''1.4.0'' (Cap Diag) (Some (Obj 2)) False
       (snd (registerGlobal ''1.4.0'' (Cap Diag) (Some (Obj (1::nat))) True
         (module_load 1537 Map.empty)))))) \<noteq> Some (Obj 2)"
  by (simp add: registerGlobal_scoped_part scoped_part_global register_primary_def emit_def
        getGlobal_fst new_table_def Let_def)

text \<open>
  C1, as the code has it. For every capability \<open>c\<close> and distinct instances \<open>I1\<close> and \<open>I2\<close>,
  from a state with no prior registration of \<open>c\<close> and with a version that \<^verbatim>\<open>isCompatible\<close>
  accepts: after \<^verbatim>\<open>registerGlobal(c, I1, diag, true)\<close>, the call
  \<^verbatim>\<open>registerGlobal(c, I2, diag, false)\<close> returns \<open>false\<close>, and \<^verbatim>\<open>getGlobal(c)\<close> returns \<open>I1\<close>, the
  value the first call wrote to the primary table, and not \<open>I2\<close>.
\<close>

theorem override_then_register_keeps_first:
  assumes "VERSION \<noteq> []" and "isCompatible (Str VERSION)"
    and "no_prior_registration VERSION c st" and "i1 \<noteq> i2"
  shows "fst (registerGlobal VERSION (Cap c) (Some (Obj i2)) False
               (snd (registerGlobal VERSION (Cap c) (Some (Obj i1)) True st))) = False
     \<and> fst (getGlobal isCompatible VERSION (Cap c)
             (snd (registerGlobal VERSION (Cap c) (Some (Obj i2)) False
               (snd (registerGlobal VERSION (Cap c) (Some (Obj i1)) True st))))) = Some (Obj i1)
     \<and> fst (getGlobal isCompatible VERSION (Cap c)
             (snd (registerGlobal VERSION (Cap c) (Some (Obj i2)) False
               (snd (registerGlobal VERSION (Cap c) (Some (Obj i1)) True st))))) \<noteq> Some (Obj i2)"
proof -
  let ?s1 = "snd (registerGlobal VERSION (Cap c) (Some (Obj i1)) True st)"
  let ?P = "GLOBAL_OPENTELEMETRY_API_KEY VERSION"
  let ?sp = "scoped_part VERSION (Cap c) (Some (Obj i1)) True st"
  have sp: "(\<exists>api. global ?sp ?P = Some api \<and> api version = Some (Str VERSION))
            \<or> global ?sp ?P = None"
    using assms(3)
    by (cases "global st ?P")
       (auto simp: scoped_part_global no_prior_registration_def new_table_def)
  have "\<exists>api. global ?s1 ?P = Some api \<and> api version = Some (Str VERSION)
            \<and> api (Cap c) = Some (Obj i1)"
    using sp
    by (auto simp: registerGlobal_scoped_part register_primary_accepted register_primary_fresh
          new_table_def)
  then obtain api where api: "global ?s1 ?P = Some api" "api version = Some (Str VERSION)"
      "api (Cap c) = Some (Obj i1)"
    by auto
  have "register_primary VERSION (Cap c) (Some (Obj i2)) False ?s1 =
          (False, ?s1\<lparr> effects := effects ?s1 @
                [diag_error (duplicate_registration_message (Cap c))] \<rparr>)"
    using api by (intro register_primary_rejected_duplicate[where api = api]) simp_all
  with api assms(1,2,4) show ?thesis
    by (simp add: registerGlobal_scoped_part[where ov = False] getGlobal_fst)
qed

theorem override_then_register_keeps_first_witness:
  "''1.4.0'' \<noteq> []
   \<and> no_prior_registration ''1.4.0'' Diag (module_load 1537 Map.empty :: nat module)
   \<and> fst (registerGlobal ''1.4.0'' (Cap Diag) (Some (Obj 2)) False
         (snd (registerGlobal ''1.4.0'' (Cap Diag) (Some (Obj (1::nat))) True
            (module_load 1537 Map.empty)))) = False
   \<and> fst (getGlobal (\<lambda>v. v = Str ''1.4.0'') ''1.4.0'' (Cap Diag)
         (snd (registerGlobal ''1.4.0'' (Cap Diag) (Some (Obj 2)) False
            (snd (registerGlobal ''1.4.0'' (Cap Diag) (Some (Obj (1::nat))) True
               (module_load 1537 Map.empty)))))) = Some (Obj 1)"
proof -
  have h: "no_prior_registration ''1.4.0'' Diag (module_load 1537 Map.empty :: nat module)"
    by (simp add: no_prior_registration_def)
  have v: "''1.4.0'' \<noteq> []" by simp
  have d: "(1::nat) \<noteq> 2" by simp
  from override_then_register_keeps_first[where isCompatible = "\<lambda>v. v = Str ''1.4.0''",
      OF v _ h d] h
  show ?thesis by simp
qed

subsection \<open>C2: a registration without override is read back\<close>

text \<open>
  C2. For every capability \<open>c\<close> and instance \<open>I\<close>: when there is no prior registration of \<open>c\<close>
  (the slot of \<open>c\<close> in the primary table is absent and the table, if present, is stamped with
  the version of this build) and \<^verbatim>\<open>isCompatible\<close> accepts the version of this build,
  \<^verbatim>\<open>registerGlobal(c, I, diag, false)\<close> followed by \<^verbatim>\<open>getGlobal(c)\<close> returns \<open>I\<close>. The version of
  a build is a semantic version, hence not the empty string, which \<^verbatim>\<open>getGlobal\<close> treats as
  no version.
\<close>

theorem register_then_get:
  assumes "VERSION \<noteq> []" and "isCompatible (Str VERSION)"
    and "no_prior_registration VERSION c st"
  shows "fst (getGlobal isCompatible VERSION (Cap c)
           (snd (registerGlobal VERSION (Cap c) I False st))) = I"
proof (cases "global st (GLOBAL_OPENTELEMETRY_API_KEY VERSION)")
  case None
  with assms show ?thesis
    by (simp add: registerGlobal_scoped_part register_primary_fresh getGlobal_fst new_table_def)
next
  case (Some api)
  with assms have "api version = Some (Str VERSION)" "\<not> truthy (api (Cap c))"
    by (simp_all add: no_prior_registration_def)
  with Some assms show ?thesis
    by (simp add: registerGlobal_scoped_part register_primary_accepted getGlobal_fst)
qed

theorem register_then_get_witness:
  "''1.4.0'' \<noteq> []
   \<and> no_prior_registration ''1.4.0'' Diag
       (module_load 1537 [''opentelemetry.js.api.1'' \<mapsto>
          [version \<mapsto> Str ''1.4.0'', Cap Trace \<mapsto> Obj (3::nat)]])
   \<and> fst (getGlobal (\<lambda>v. v = Str ''1.4.0'') ''1.4.0'' (Cap Diag)
         (snd (registerGlobal ''1.4.0'' (Cap Diag) (Some (Obj 7)) False
            (module_load 1537 [''opentelemetry.js.api.1'' \<mapsto>
               [version \<mapsto> Str ''1.4.0'', Cap Trace \<mapsto> Obj (3::nat)]])))) = Some (Obj 7)"
proof -
  have h: "no_prior_registration ''1.4.0'' Diag
       (module_load 1537 [''opentelemetry.js.api.1'' \<mapsto>
          [version \<mapsto> Str ''1.4.0'', Cap Trace \<mapsto> Obj (3::nat)]])"
    by (simp add: no_prior_registration_def)
  have v: "''1.4.0'' \<noteq> []" by simp
  from register_then_get[where isCompatible = "\<lambda>v. v = Str ''1.4.0''", OF v _ h] h
  show ?thesis by simp
qed

subsection \<open>C3: a duplicate registration is rejected\<close>

text \<open>
  C3. For every capability \<open>c\<close> already registered in the primary table,
  \<^verbatim>\<open>registerGlobal(c, I2, diag, false)\<close> returns \<open>false\<close>, passes the duplicate-registration error
  to the logger, and does not change what a following \<^verbatim>\<open>getGlobal(c)\<close> returns.
\<close>

theorem duplicate_registration_rejected:
  assumes "global st (GLOBAL_OPENTELEMETRY_API_KEY VERSION) = Some api"
    and "api (Cap c) = Some (Obj i)"
  shows "fst (registerGlobal VERSION (Cap c) I2 False st) = False
     \<and> effects (snd (registerGlobal VERSION (Cap c) I2 False st)) =
         effects st @ [diag_error (duplicate_registration_message (Cap c))]
     \<and> fst (getGlobal isCompatible VERSION (Cap c)
              (snd (registerGlobal VERSION (Cap c) I2 False st)))
        = fst (getGlobal isCompatible VERSION (Cap c) st)"
  using assms
  by (simp add: registerGlobal_scoped_part register_primary_rejected_duplicate getGlobal_fst)

theorem duplicate_registration_rejected_witness:
  "fst (registerGlobal ''1.4.0'' (Cap Diag) (Some (Obj 2)) False
          (module_load 1537 [''opentelemetry.js.api.1'' \<mapsto>
             [version \<mapsto> Str ''1.4.0'', Cap Diag \<mapsto> Obj (1::nat)]])) = False
   \<and> effects (snd (registerGlobal ''1.4.0'' (Cap Diag) (Some (Obj 2)) False
          (module_load 1537 [''opentelemetry.js.api.1'' \<mapsto>
             [version \<mapsto> Str ''1.4.0'', Cap Diag \<mapsto> Obj (1::nat)]])))
       = [new_Date 1537, diag_error (duplicate_registration_message (Cap Diag))]
   \<and> fst (getGlobal (\<lambda>v. True) ''1.4.0'' (Cap Diag)
         (snd (registerGlobal ''1.4.0'' (Cap Diag) (Some (Obj 2)) False
            (module_load 1537 [''opentelemetry.js.api.1'' \<mapsto>
               [version \<mapsto> Str ''1.4.0'', Cap Diag \<mapsto> Obj (1::nat)]])))) = Some (Obj 1)"
proof -
  let ?api = "[version \<mapsto> Str ''1.4.0'', Cap Diag \<mapsto> Obj (1::nat)]"
  let ?st = "module_load 1537 [''opentelemetry.js.api.1'' \<mapsto> ?api]"
  have t: "global ?st (GLOBAL_OPENTELEMETRY_API_KEY ''1.4.0'') = Some ?api" by simp
  have r: "?api (Cap Diag) = Some (Obj 1)" by simp
  have g: "fst (getGlobal (\<lambda>v. True) ''1.4.0'' (Cap Diag) ?st) = Some (Obj 1)"
    by (simp add: getGlobal_fst)
  from duplicate_registration_rejected[OF t r, where ?I2.0 = "Some (Obj 2)"
      and isCompatible = "\<lambda>v. True"] g
  show ?thesis by simp
qed

subsection \<open>C4: a version mismatch is rejected\<close>

text \<open>
  C4. For every capability \<open>c\<close> and instance \<open>I\<close>: when the primary table exists and its
  version is not the version string of this build, \<^verbatim>\<open>registerGlobal(c, I, diag, allowOverride)\<close>
  returns \<open>false\<close>, passes an error to the logger (after the debug message of the scoped
  registration, when \<^verbatim>\<open>allowOverride\<close> is set), and leaves the primary table as it was,
  every slot and the version.
\<close>

theorem version_mismatch_rejected:
  assumes "global st (GLOBAL_OPENTELEMETRY_API_KEY VERSION) = Some api"
    and "api version \<noteq> Some (Str VERSION)"
    and "module_ok VERSION st"
  shows "fst (registerGlobal VERSION (Cap c) I allowOverride st) = False
     \<and> (\<exists>m. effects (snd (registerGlobal VERSION (Cap c) I allowOverride st)) =
            effects st @ scoped_effects VERSION (Cap c) allowOverride st @ [diag_error m])
     \<and> global (snd (registerGlobal VERSION (Cap c) I allowOverride st))
         (GLOBAL_OPENTELEMETRY_API_KEY VERSION) = Some api"
proof -
  let ?s = "scoped_part VERSION (Cap c) I allowOverride st"
  from assms(3) have "scoped_key VERSION st \<noteq> GLOBAL_OPENTELEMETRY_API_KEY VERSION"
    by (rule scoped_key_neq_global)
  with assms(1) have g: "global ?s (GLOBAL_OPENTELEMETRY_API_KEY VERSION) = Some api"
    by (simp add: scoped_part_global)
  show ?thesis
  proof (cases "\<not> allowOverride \<and> truthy (api (Cap c))")
    case True
    with g show ?thesis
      by (simp add: registerGlobal_scoped_part scoped_effects_def
            register_primary_rejected_duplicate[where api = api])
  next
    case False
    with g assms(2) show ?thesis
      by (simp add: registerGlobal_scoped_part
            register_primary_rejected_version[where api = api])
  qed
qed

theorem version_mismatch_rejected_witness:
  "module_ok ''1.4.0'' (module_load 1537 [''opentelemetry.js.api.1'' \<mapsto>
       [version \<mapsto> Str ''1.3.0'', Cap Diag \<mapsto> Obj (1::nat)]])
   \<and> fst (registerGlobal ''1.4.0'' (Cap Trace) (Some (Obj 2)) True
          (module_load 1537 [''opentelemetry.js.api.1'' \<mapsto>
             [version \<mapsto> Str ''1.3.0'', Cap Diag \<mapsto> Obj (1::nat)]])) = False
   \<and> (\<exists>m. effects (snd (registerGlobal ''1.4.0'' (Cap Trace) (Some (Obj 2)) True
          (module_load 1537 [''opentelemetry.js.api.1'' \<mapsto>
             [version \<mapsto> Str ''1.3.0'', Cap Diag \<mapsto> Obj (1::nat)]])))
        = [new_Date 1537,
           diag_debug (scoped_registration_message 537 (Cap Trace) ''1.4.0''),
           diag_error m])
   \<and> global (snd (registerGlobal ''1.4.0'' (Cap Trace) (Some (Obj 2)) True
          (module_load 1537 [''opentelemetry.js.api.1'' \<mapsto>
             [version \<mapsto> Str ''1.3.0'', Cap Diag \<mapsto> Obj (1::nat)]])))
        ''opentelemetry.js.api.1''
       = Some [version \<mapsto> Str ''1.3.0'', Cap Diag \<mapsto> Obj 1]"
proof -
  let ?api = "[version \<mapsto> Str ''1.3.0'', Cap Diag \<mapsto> Obj (1::nat)]"
  let ?st = "module_load 1537 [''opentelemetry.js.api.1'' \<mapsto> ?api]"
  have t: "global ?st (GLOBAL_OPENTELEMETRY_API_KEY ''1.4.0'') = Some ?api" by simp
  have v: "?api version \<noteq> Some (Str ''1.4.0'')" by simp
  have ok: "module_ok ''1.4.0'' ?st" by (simp add: module_ok_def)
  have e: "effects ?st @ scoped_effects ''1.4.0'' (Cap Trace) True ?st @ [diag_error m] =
             [new_Date 1537,
              diag_debug (scoped_registration_message 537 (Cap Trace) ''1.4.0''),
              diag_error m]" for m
    by (simp add: scoped_effects_def)
  from version_mismatch_rejected[OF t v ok, where c = Trace and I = "Some (Obj 2)"
      and allowOverride = True] ok
  show ?thesis unfolding e key_1_4_0 by blast
qed

subsection \<open>C5: the version of the primary table is fixed by its first writer\<close>

text \<open>
  C5. Once the primary table exists, no sequence of \<^verbatim>\<open>registerGlobal\<close>, \<^verbatim>\<open>getGlobal\<close> and
  \<^verbatim>\<open>unregisterGlobal\<close> calls on capabilities changes its version field; and after a registration
  that returned \<open>true\<close> the version field is the version string of this build, and stays so
  through every later sequence of calls.
\<close>

theorem version_field_immutable:
  "(global st (GLOBAL_OPENTELEMETRY_API_KEY VERSION) = Some t \<longrightarrow>
      (\<exists>t'. global (run isCompatible VERSION xs st) (GLOBAL_OPENTELEMETRY_API_KEY VERSION) = Some t'
            \<and> t' version = t version))
   \<and> (fst (registerGlobal VERSION (Cap c) v ov st) \<longrightarrow>
      (\<exists>t'. global (run isCompatible VERSION xs (snd (registerGlobal VERSION (Cap c) v ov st)))
               (GLOBAL_OPENTELEMETRY_API_KEY VERSION) = Some t'
            \<and> t' version = Some (Str VERSION)))"
proof (intro conjI impI)
  assume "global st (GLOBAL_OPENTELEMETRY_API_KEY VERSION) = Some t"
  from run_version_kept[OF this, of isCompatible VERSION xs]
  show "\<exists>t'. global (run isCompatible VERSION xs st) (GLOBAL_OPENTELEMETRY_API_KEY VERSION) = Some t'
            \<and> t' version = t version"
    by (auto simp: version_of_def)
next
  assume "fst (registerGlobal VERSION (Cap c) v ov st)"
  from registerGlobal_True_version[OF this] obtain t1 where
    t1: "global (snd (registerGlobal VERSION (Cap c) v ov st))
           (GLOBAL_OPENTELEMETRY_API_KEY VERSION) = Some t1" "t1 version = Some (Str VERSION)"
    by auto
  from run_version_kept[OF t1(1), of isCompatible VERSION xs] t1(2)
  show "\<exists>t'. global (run isCompatible VERSION xs (snd (registerGlobal VERSION (Cap c) v ov st)))
               (GLOBAL_OPENTELEMETRY_API_KEY VERSION) = Some t'
            \<and> t' version = Some (Str VERSION)"
    by (auto simp: version_of_def)
qed

theorem version_field_immutable_witness:
  "(\<exists>t'. global (run (\<lambda>v. True) ''1.4.0''
              [Register Diag (Some (Obj (1::nat))) False, Unregister Diag,
               Register Trace (Some (Obj 2)) True, Get Trace]
              (module_load 1537 [''opentelemetry.js.api.1'' \<mapsto> [version \<mapsto> Str ''1.3.0'']]))
            ''opentelemetry.js.api.1'' = Some t'
         \<and> t' version = Some (Str ''1.3.0''))
   \<and> fst (registerGlobal ''1.4.0'' (Cap Diag) (Some (Obj (1::nat))) False
            (module_load 1537 Map.empty))
   \<and> (\<exists>t'. global (run (\<lambda>v. True) ''1.4.0''
              [Register Trace (Some (Obj 2)) True, Unregister Diag, Get Trace]
              (snd (registerGlobal ''1.4.0'' (Cap Diag) (Some (Obj (1::nat))) False
                 (module_load 1537 Map.empty))))
            ''opentelemetry.js.api.1'' = Some t'
         \<and> t' version = Some (Str ''1.4.0''))"
proof -
  let ?t = "[version \<mapsto> Str ''1.3.0''] :: nat OTelGlobalAPI"
  let ?st = "module_load 1537 [''opentelemetry.js.api.1'' \<mapsto> ?t]"
  let ?fresh = "module_load 1537 Map.empty :: nat module"
  have t: "global ?st (GLOBAL_OPENTELEMETRY_API_KEY ''1.4.0'') = Some ?t" by simp
  have tv: "?t version = Some (Str ''1.3.0'')" by simp
  have f: "fst (registerGlobal ''1.4.0'' (Cap Diag) (Some (Obj 1)) False ?fresh)"
    by (simp add: registerGlobal_scoped_part register_primary_def Let_def new_table_def)
  from version_field_immutable[where st = ?st and t = ?t and VERSION = "''1.4.0''"
      and isCompatible = "\<lambda>v. True"
      and xs = "[Register Diag (Some (Obj 1)) False, Unregister Diag,
                 Register Trace (Some (Obj 2)) True, Get Trace]"] t
  have a: "\<exists>t'. global (run (\<lambda>v. True) ''1.4.0''
              [Register Diag (Some (Obj 1)) False, Unregister Diag,
               Register Trace (Some (Obj 2)) True, Get Trace] ?st)
            ''opentelemetry.js.api.1'' = Some t' \<and> t' version = Some (Str ''1.3.0'')"
    unfolding tv key_1_4_0 by blast
  from version_field_immutable[where st = ?fresh and VERSION = "''1.4.0''"
      and isCompatible = "\<lambda>v. True" and c = Diag and v = "Some (Obj 1)" and ov = False
      and xs = "[Register Trace (Some (Obj 2)) True, Unregister Diag, Get Trace]"] f
  have b: "\<exists>t'. global (run (\<lambda>v. True) ''1.4.0''
              [Register Trace (Some (Obj 2)) True, Unregister Diag, Get Trace]
              (snd (registerGlobal ''1.4.0'' (Cap Diag) (Some (Obj 1)) False ?fresh)))
            ''opentelemetry.js.api.1'' = Some t' \<and> t' version = Some (Str ''1.4.0'')"
    unfolding key_1_4_0 by blast
  from a f b show ?thesis by blast
qed

subsection \<open>C6: unregisterGlobal clears one slot\<close>

text \<open>
  C6. For capabilities \<open>a\<close> and \<open>b\<close>: after \<^verbatim>\<open>unregisterGlobal(a, diag)\<close>, \<^verbatim>\<open>getGlobal(a)\<close> returns
  nothing and, when \<open>b\<close> is not \<open>a\<close>, \<^verbatim>\<open>getGlobal(b)\<close> returns what it returned before. The call
  changes no table under any other key of the shared object (the scoped table among them),
  keeps the version of the primary table, and passes one debug message to the logger in
  every state, whether or not the table or the slot exists.
\<close>

theorem unregister_clears_one_slot:
  "fst (getGlobal isCompatible VERSION (Cap a) (unregisterGlobal VERSION (Cap a) st)) = None
   \<and> (a \<noteq> b \<longrightarrow>
        fst (getGlobal isCompatible VERSION (Cap b) (unregisterGlobal VERSION (Cap a) st))
          = fst (getGlobal isCompatible VERSION (Cap b) st))
   \<and> (\<forall>k. k \<noteq> GLOBAL_OPENTELEMETRY_API_KEY VERSION \<longrightarrow>
          global (unregisterGlobal VERSION (Cap a) st) k = global st k)
   \<and> global (unregisterGlobal VERSION (Cap a) st) (scoped_symbol VERSION (instanceId st))
        = global st (scoped_symbol VERSION (instanceId st))
   \<and> version_of (global (unregisterGlobal VERSION (Cap a) st)
                    (GLOBAL_OPENTELEMETRY_API_KEY VERSION))
        = version_of (global st (GLOBAL_OPENTELEMETRY_API_KEY VERSION))
   \<and> SCOPED_OPENTELEMETRY_API_KEY (unregisterGlobal VERSION (Cap a) st)
        = SCOPED_OPENTELEMETRY_API_KEY st
   \<and> effects (unregisterGlobal VERSION (Cap a) st)
        = effects st @ [diag_debug (unregistration_message (Cap a) VERSION)]"
  by (cases "global st (GLOBAL_OPENTELEMETRY_API_KEY VERSION)")
     (simp_all add: getGlobal_fst unregisterGlobal_global version_of_def split: option.split)

theorem unregister_clears_one_slot_witness:
  "fst (getGlobal (\<lambda>v. True) ''1.4.0'' (Cap Diag)
          (module_load 1537 [''opentelemetry.js.api.1'' \<mapsto>
             [version \<mapsto> Str ''1.4.0'', Cap Diag \<mapsto> Obj (1::nat), Cap Trace \<mapsto> Obj 2]]))
     = Some (Obj 1)
   \<and> fst (getGlobal (\<lambda>v. True) ''1.4.0'' (Cap Diag)
          (unregisterGlobal ''1.4.0'' (Cap Diag)
             (module_load 1537 [''opentelemetry.js.api.1'' \<mapsto>
                [version \<mapsto> Str ''1.4.0'', Cap Diag \<mapsto> Obj (1::nat), Cap Trace \<mapsto> Obj 2]])))
     = None
   \<and> fst (getGlobal (\<lambda>v. True) ''1.4.0'' (Cap Trace)
          (unregisterGlobal ''1.4.0'' (Cap Diag)
             (module_load 1537 [''opentelemetry.js.api.1'' \<mapsto>
                [version \<mapsto> Str ''1.4.0'', Cap Diag \<mapsto> Obj (1::nat), Cap Trace \<mapsto> Obj 2]])))
     = Some (Obj 2)"
proof -
  let ?st = "module_load 1537 [''opentelemetry.js.api.1'' \<mapsto>
                [version \<mapsto> Str ''1.4.0'', Cap Diag \<mapsto> Obj (1::nat), Cap Trace \<mapsto> Obj 2]]"
  have a: "fst (getGlobal (\<lambda>v. True) ''1.4.0'' (Cap Diag) ?st) = Some (Obj 1)"
    by (simp add: getGlobal_fst)
  have b: "fst (getGlobal (\<lambda>v. True) ''1.4.0'' (Cap Trace) ?st) = Some (Obj 2)"
    by (simp add: getGlobal_fst)
  have d: "Diag \<noteq> Trace" by simp
  from unregister_clears_one_slot[where a = Diag and b = Trace and st = ?st
      and VERSION = "''1.4.0''" and isCompatible = "\<lambda>v. True"] a b d
  show ?thesis by simp
qed

subsection \<open>C7: when the instance identifier and the scoped key come to be\<close>

text \<open>
  C7 says that the instance identifier is read from the clock lazily, at the first call of
  \<^verbatim>\<open>registerGlobal\<close> with \<^verbatim>\<open>allowOverride\<close>, and not before. Line 30 reads the clock when the
  module is loaded: the identifier exists before any call, and the first call with
  \<^verbatim>\<open>allowOverride\<close> reads no clock.
\<close>

theorem instanceId_read_at_load_counterexample:
  "instanceId (module_load 1537 Map.empty :: nat module) = 537
   \<and> effects (module_load 1537 Map.empty :: nat module) = [new_Date 1537]
   \<and> filter is_clock_reading
       (effects (snd (registerGlobal ''1.4.0'' (Cap Diag) (Some (Obj (1::nat))) True
          (module_load 1537 Map.empty)))) = [new_Date 1537]"
  by simp

text \<open>
  C7, as the code has it. The clock is read once, when the module is loaded, and the
  instance identifier is the milliseconds of that reading; no sequence of calls reads the
  clock again or changes the identifier. What is lazy is the scoped key: it is unassigned
  until the first call of \<^verbatim>\<open>registerGlobal\<close> with \<^verbatim>\<open>allowOverride\<close>, and from then on it is the
  symbol made from the major version and the identifier.
\<close>

theorem instanceId_eager_scoped_key_lazy:
  "instanceId (run isCompatible VERSION xs (module_load now g)) = getMilliseconds now
   \<and> filter is_clock_reading (effects (run isCompatible VERSION xs (module_load now g)))
       = [new_Date now]
   \<and> SCOPED_OPENTELEMETRY_API_KEY (run isCompatible VERSION xs (module_load now g))
       = (if \<exists>x \<in> set xs. is_override x
          then Some (scoped_symbol VERSION (getMilliseconds now)) else None)"
  by (simp add: run_key)

theorem instanceId_eager_scoped_key_lazy_witness:
  "SCOPED_OPENTELEMETRY_API_KEY
     (run (\<lambda>v. True) ''1.4.0''
        [Get Diag, Register Diag (Some (Obj (1::nat))) False, Unregister Diag]
        (module_load 1537 Map.empty)) = None
   \<and> SCOPED_OPENTELEMETRY_API_KEY
     (run (\<lambda>v. True) ''1.4.0''
        [Get Diag, Register Diag (Some (Obj (1::nat))) False, Register Trace (Some (Obj 2)) True,
         Unregister Diag]
        (module_load 1537 Map.empty)) = Some ''opentelemetry.js.api.1.instance.537''
   \<and> instanceId
     (run (\<lambda>v. True) ''1.4.0''
        [Get Diag, Register Diag (Some (Obj (1::nat))) False, Register Trace (Some (Obj 2)) True,
         Unregister Diag]
        (module_load 1537 Map.empty)) = 537
   \<and> filter is_clock_reading (effects
     (run (\<lambda>v. True) ''1.4.0''
        [Get Diag, Register Diag (Some (Obj (1::nat))) False, Register Trace (Some (Obj 2)) True,
         Unregister Diag]
        (module_load 1537 Map.empty))) = [new_Date 1537]"
  using instanceId_eager_scoped_key_lazy[where isCompatible = "\<lambda>v. True" and VERSION = "''1.4.0''"
      and now = 1537 and g = "Map.empty :: nat OTelGlobal"
      and xs = "[Get Diag, Register Diag (Some (Obj 1)) False, Unregister Diag]"]
    instanceId_eager_scoped_key_lazy[where isCompatible = "\<lambda>v. True" and VERSION = "''1.4.0''"
      and now = 1537 and g = "Map.empty :: nat OTelGlobal"
      and xs = "[Get Diag, Register Diag (Some (Obj 1)) False,
                 Register Trace (Some (Obj 2)) True, Unregister Diag]"]
  by simp

subsection \<open>C8: the version of the scoped table\<close>

text \<open>
  C8 says that the scoped table always carries the version of this build, for any initial
  state of the shared object, being created afresh and never inherited. Lines 48-52 keep an
  entry that is already there under the scoped key: when another copy of the module, of
  version 1.3.0 and with the same instance identifier, has left its table there, the table
  is used as it is, version included.
\<close>

theorem scoped_table_inherited_counterexample:
  "SCOPED_OPENTELEMETRY_API_KEY
     (snd (registerGlobal ''1.4.0'' (Cap Diag) (Some (Obj (1::nat))) True
        (module_load 1537
           [''opentelemetry.js.api.1.instance.537'' \<mapsto> [version \<mapsto> Str ''1.3.0'']])))
     = Some ''opentelemetry.js.api.1.instance.537''
   \<and> version_of
       (global (snd (registerGlobal ''1.4.0'' (Cap Diag) (Some (Obj (1::nat))) True
          (module_load 1537
             [''opentelemetry.js.api.1.instance.537'' \<mapsto> [version \<mapsto> Str ''1.3.0'']])))
        ''opentelemetry.js.api.1.instance.537'')
     = Some (Some (Str ''1.3.0''))"
  by (simp add: registerGlobal_scoped_part scoped_part_global version_of_def)

text \<open>
  C8, as the code has it. After any sequence of calls that has a registration with
  \<^verbatim>\<open>allowOverride\<close>, the scoped table exists. When the shared object had no entry under the
  scoped key as the module was loaded, the scoped table, whenever it exists, carries the
  version string of this build. An entry that was already there is kept, with the version
  it had.
\<close>

theorem scoped_table_version:
  "((\<exists>x \<in> set xs. is_override x) \<longrightarrow>
      global (run isCompatible VERSION xs (module_load now g))
        (scoped_symbol VERSION (getMilliseconds now)) \<noteq> None)
   \<and> (g (scoped_symbol VERSION (getMilliseconds now)) = None \<longrightarrow>
      (\<forall>t. global (run isCompatible VERSION xs (module_load now g))
             (scoped_symbol VERSION (getMilliseconds now)) = Some t
           \<longrightarrow> t version = Some (Str VERSION)))
   \<and> (g (scoped_symbol VERSION (getMilliseconds now)) = Some t0 \<longrightarrow>
      (\<exists>t. global (run isCompatible VERSION xs (module_load now g))
             (scoped_symbol VERSION (getMilliseconds now)) = Some t
           \<and> t version = t0 version))"
proof (intro conjI impI allI)
  assume "\<exists>x \<in> set xs. is_override x"
  from run_override_exists[OF this, of isCompatible VERSION "module_load now g"]
  show "global (run isCompatible VERSION xs (module_load now g))
        (scoped_symbol VERSION (getMilliseconds now)) \<noteq> None"
    by simp
next
  fix t
  assume "g (scoped_symbol VERSION (getMilliseconds now)) = None"
    and "global (run isCompatible VERSION xs (module_load now g))
             (scoped_symbol VERSION (getMilliseconds now)) = Some t"
  with run_version_stamped[of "module_load now g" "scoped_symbol VERSION (getMilliseconds now)"
      isCompatible VERSION xs]
  show "t version = Some (Str VERSION)"
    by (simp add: version_of_def)
next
  assume "g (scoped_symbol VERSION (getMilliseconds now)) = Some t0"
  with run_version_kept[of "module_load now g" "scoped_symbol VERSION (getMilliseconds now)" t0
      isCompatible VERSION xs]
  show "\<exists>t. global (run isCompatible VERSION xs (module_load now g))
             (scoped_symbol VERSION (getMilliseconds now)) = Some t
           \<and> t version = t0 version"
    by (auto simp: version_of_def)
qed

theorem scoped_table_version_witness:
  "(\<exists>t. global (run (\<lambda>v. True) ''1.4.0''
             [Register Diag (Some (Obj (1::nat))) True, Unregister Diag]
             (module_load 1537 Map.empty))
           ''opentelemetry.js.api.1.instance.537'' = Some t
        \<and> t version = Some (Str ''1.4.0''))
   \<and> (\<exists>t. global (run (\<lambda>v. True) ''1.4.0''
             [Register Diag (Some (Obj (1::nat))) True, Unregister Diag]
             (module_load 1537
                [''opentelemetry.js.api.1.instance.537'' \<mapsto> [version \<mapsto> Str ''1.3.0'']]))
           ''opentelemetry.js.api.1.instance.537'' = Some t
        \<and> t version = Some (Str ''1.3.0''))"
proof -
  let ?xs = "[Register Diag (Some (Obj (1::nat))) True, Unregister Diag]"
  let ?t0 = "[version \<mapsto> Str ''1.3.0''] :: nat OTelGlobalAPI"
  let ?g = "[''opentelemetry.js.api.1.instance.537'' \<mapsto> ?t0]"
  have o: "\<exists>x \<in> set ?xs. is_override x" by simp
  have n: "(Map.empty :: nat OTelGlobal) (scoped_symbol ''1.4.0'' (getMilliseconds 1537)) = None"
    by simp
  have s: "?g (scoped_symbol ''1.4.0'' (getMilliseconds 1537)) = Some ?t0" by simp
  have tv: "?t0 version = Some (Str ''1.3.0'')" by simp
  from scoped_table_version[where xs = ?xs and isCompatible = "\<lambda>v. True"
      and VERSION = "''1.4.0''" and now = 1537 and g = "Map.empty :: nat OTelGlobal"] o n
  have a: "\<exists>t. global (run (\<lambda>v. True) ''1.4.0'' ?xs (module_load 1537 Map.empty))
           ''opentelemetry.js.api.1.instance.537'' = Some t
        \<and> t version = Some (Str ''1.4.0'')"
    unfolding getMilliseconds_1537 scoped_1_4_0_537 by blast
  from scoped_table_version[where xs = ?xs and isCompatible = "\<lambda>v. True"
      and VERSION = "''1.4.0''" and now = 1537 and g = ?g and ?t0.0 = ?t0] s
  have b: "\<exists>t. global (run (\<lambda>v. True) ''1.4.0'' ?xs (module_load 1537 ?g))
           ''opentelemetry.js.api.1.instance.537'' = Some t
        \<and> t version = Some (Str ''1.3.0'')"
    unfolding getMilliseconds_1537 scoped_1_4_0_537 tv by blast
  from a b show ?thesis by blast
qed

subsection \<open>C9: when registerGlobal raises\<close>




subsection \<open>C10: getGlobal on a table whose version is falsy\<close>

text \<open>
  C10. For every capability \<open>c\<close>: when the primary table exists and its version is falsy
  (missing, or the empty string), \<^verbatim>\<open>getGlobal(c)\<close> returns nothing and leaves the state as it
  was, so \<^verbatim>\<open>isCompatible\<close> is not called, whatever it would answer. In every state
  \<^verbatim>\<open>getGlobal\<close> leaves the shared object as it was.
\<close>

theorem getGlobal_falsy_version:
  "(global st (GLOBAL_OPENTELEMETRY_API_KEY VERSION) = Some api \<and> \<not> truthy (api version)
      \<longrightarrow> getGlobal isCompatible VERSION (Cap c) st = (None, st))
   \<and> global (snd (getGlobal isCompatible VERSION (Cap c) st)) = global st"
proof -
  have "getGlobal isCompatible VERSION (Cap c) st = (None, st)"
    if "global st (GLOBAL_OPENTELEMETRY_API_KEY VERSION) = Some api" "\<not> truthy (api version)"
    using that by (cases "api version") (simp_all add: getGlobal_def)
  then show ?thesis by simp
qed

theorem getGlobal_falsy_version_witness:
  "getGlobal (\<lambda>v. True) ''1.4.0'' (Cap Diag)
     (module_load 1537 [''opentelemetry.js.api.1'' \<mapsto>
        [version \<mapsto> Str [], Cap Diag \<mapsto> Obj (1::nat)]])
   = (None, module_load 1537 [''opentelemetry.js.api.1'' \<mapsto>
        [version \<mapsto> Str [], Cap Diag \<mapsto> Obj (1::nat)]])
   \<and> effects (snd (getGlobal (\<lambda>v. True) ''1.4.0'' (Cap Diag)
     (module_load 1537 [''opentelemetry.js.api.1'' \<mapsto>
        [version \<mapsto> Str [], Cap Diag \<mapsto> Obj (1::nat)]]))) = [new_Date 1537]"
proof -
  let ?api = "[version \<mapsto> Str [], Cap Diag \<mapsto> Obj (1::nat)]"
  let ?st = "module_load 1537 [''opentelemetry.js.api.1'' \<mapsto> ?api]"
  have t: "global ?st (GLOBAL_OPENTELEMETRY_API_KEY ''1.4.0'') = Some ?api" by simp
  have v: "\<not> truthy (?api version)" by simp
  from getGlobal_falsy_version[where st = ?st and VERSION = "''1.4.0''" and api = ?api
      and isCompatible = "\<lambda>v. True" and c = Diag] t v
  have "getGlobal (\<lambda>v. True) ''1.4.0'' (Cap Diag) ?st = (None, ?st)" by blast
  then show ?thesis by simp
qed

end
